theory Spec2Isabelle
  imports Main
begin

section \<open>Identifier validator\<close>

text \<open>
  \<^verbatim>\<open>server.js\<close> validates the two handles with the regular expressions
  \<^verbatim>\<open>/^[a-zA-Z0-9_]{3,20}$/\<close> and \<^verbatim>\<open>/^[a-zA-Z0-9_.]{2,32}$/\<close>. Both have the shape
  "anchored at both ends, one character class, a bounded repetition", so the regular
  expression is a value of \<open>regex\<close> and \<open>regex_test\<close> is the matcher for that shape:
  it consumes one character of the class per step, counting the lower and the upper bound
  down, and accepts at the end of the input when the lower bound has been reached.
  A character class is the list of its items, in the order the source writes them.
  A string is the list of the bytes of its UTF-8 encoding, which is what the storage
  receives. Every item of the two classes is ASCII, so a string with a character outside
  ASCII fails both tests whether its bytes or its UTF-16 units are tested.
\<close>

datatype cls_item = CRange char char | CChar char

type_synonym char_class = "cls_item list"

fun in_item :: "cls_item \<Rightarrow> char \<Rightarrow> bool" where
  "in_item (CRange lo hi) c =
     ((of_char lo :: nat) \<le> of_char c \<and> (of_char c :: nat) \<le> of_char hi)"
| "in_item (CChar x) c = (c = x)"

definition in_class :: "char_class \<Rightarrow> char \<Rightarrow> bool" where
  "in_class cls c = list_ex (\<lambda>i. in_item i c) cls"

datatype regex = AnchoredRep char_class nat nat

fun rep_test :: "char_class \<Rightarrow> nat \<Rightarrow> nat \<Rightarrow> string \<Rightarrow> bool" where
  "rep_test cls lo hi [] = (lo = 0)"
| "rep_test cls lo hi (c # cs) =
     (0 < hi \<and> in_class cls c \<and> rep_test cls (lo - 1) (hi - 1) cs)"

fun regex_test :: "regex \<Rightarrow> string \<Rightarrow> bool" where
  "regex_test (AnchoredRep cls lo hi) s = rep_test cls lo hi s"

definition robloxUsernameRegex :: regex where
  "robloxUsernameRegex =
     AnchoredRep [CRange CHR ''a'' CHR ''z'', CRange CHR ''A'' CHR ''Z'',
                  CRange CHR ''0'' CHR ''9'', CChar CHR ''_''] 3 20"

definition discordUsernameRegex :: regex where
  "discordUsernameRegex =
     AnchoredRep [CRange CHR ''a'' CHR ''z'', CRange CHR ''A'' CHR ''Z'',
                  CRange CHR ''0'' CHR ''9'', CChar CHR ''_'', CChar CHR ''.''] 2 32"

text \<open>
  \<^verbatim>\<open>validateRobloxUser\<close> and \<^verbatim>\<open>validateDiscordUser\<close>: the \<^verbatim>\<open>try\<close> block only
  builds the regular expression and tests the string, which cannot throw on a string, so
  the \<^verbatim>\<open>catch\<close> branch (log, return false) is never taken and the result is the
  boolean of the test.
\<close>

definition validateRobloxUser :: "string \<Rightarrow> bool" where
  "validateRobloxUser username = regex_test robloxUsernameRegex username"

definition validateDiscordUser :: "string \<Rightarrow> bool" where
  "validateDiscordUser username = regex_test discordUsernameRegex username"

text \<open>
  The patterns as the specification words them, \<^verbatim>\<open>^[A-Za-z0-9_]{3,20}$\<close> and
  \<^verbatim>\<open>^[A-Za-z0-9_.]{2,32}$\<close>, read directly: a length within the bounds and every
  character an ASCII letter, a digit, an underscore (or, for Discord, a dot).
\<close>

definition handle_char :: "char \<Rightarrow> bool" where
  "handle_char c =
     (let n = (of_char c :: nat) in
        (65 \<le> n \<and> n \<le> 90) \<or> (97 \<le> n \<and> n \<le> 122) \<or> (48 \<le> n \<and> n \<le> 57) \<or> n = 95)"

definition spec_roblox_pattern :: "string \<Rightarrow> bool" where
  "spec_roblox_pattern s =
     (3 \<le> length s \<and> length s \<le> 20 \<and> list_all handle_char s)"

definition spec_discord_pattern :: "string \<Rightarrow> bool" where
  "spec_discord_pattern s =
     (2 \<le> length s \<and> length s \<le> 32 \<and> list_all (\<lambda>c. handle_char c \<or> c = CHR ''.'') s)"

section \<open>Requests, responses and the storage\<close>

text \<open>
  A request-body field is absent (\<open>None\<close>, JavaScript's \<^verbatim>\<open>undefined\<close>) or a string.
  The handlers test a field with \<^verbatim>\<open>!field\<close>, which holds of an absent field and of the
  empty string.
\<close>

definition truthy :: "string option \<Rightarrow> bool" where
  "truthy v = (case v of None \<Rightarrow> False | Some s \<Rightarrow> s \<noteq> [])"

definition str :: "string option \<Rightarrow> string" where
  "str v = (case v of None \<Rightarrow> [] | Some s \<Rightarrow> s)"

datatype json = JNull | JBool bool | JNum nat | JStr string | JObj "(string \<times> json) list"

datatype response = Response (status: nat) (body: json)

fun field :: "string \<Rightarrow> json \<Rightarrow> json option" where
  "field k (JObj kvs) = map_of kvs k"
| "field k _ = None"

text \<open>
  The two tables of \<^verbatim>\<open>initializeDatabase\<close>, a table being the list of its rows in
  insertion order, and the two \<^verbatim>\<open>SERIAL\<close> sequences, each holding the last id it gave.
  Timestamps are readings of a clock that counts in \<open>nat\<close>.
\<close>

record registration =
  reg_id :: nat
  roblox_username :: string
  discord_username :: string
  reg_created_at :: nat
  reason :: "string option"

record generatedkey =
  key_id :: nat
  registration_id :: "nat option"
  serial :: string
  key_created_at :: nat

record db =
  registrations :: "registration list"
  generatedkeys :: "generatedkey list"
  registrations_id_seq :: nat
  generatedkeys_id_seq :: nat

definition tables :: "db \<Rightarrow> registration list \<times> generatedkey list" where
  "tables d = (registrations d, generatedkeys d)"

text \<open>
  What a storage call can throw: a constraint of the schema (by its name), a value longer
  than its \<^verbatim>\<open>VARCHAR(255)\<close> column, a text parameter that holds the character U+0000,
  or a failure of the connection with its message.
\<close>

datatype dberror =
    UniqueViolation string
  | ForeignKeyViolation string
  | StringTooLong
  | InvalidByteSequence
  | ConnectionError string

fun error_message :: "dberror \<Rightarrow> string" where
  "error_message (UniqueViolation c) = ''duplicate key value violates unique constraint '' @ c"
| "error_message (ForeignKeyViolation c) = ''insert violates foreign key constraint '' @ c"
| "error_message StringTooLong = ''value too long for type character varying(255)''"
| "error_message InvalidByteSequence = ''invalid byte sequence for encoding UTF8: 0x00''"
| "error_message (ConnectionError m) = m"

text \<open>
  The environment of one request: which storage call, if any, fails for a reason outside
  the data (connection lost, timeout) and with which message; the clock; and the successive
  results of \<^verbatim>\<open>Math.random().toString(36)\<close>. \<open>PoolQuery\<close> is the single
  \<^verbatim>\<open>pool.query\<close> of the handlers without a transaction; the others are the calls of
  \<^verbatim>\<open>/api/generate-serial\<close> in the order it makes them. \<^verbatim>\<open>ROLLBACK\<close> itself is taken
  not to fail. A failure that follows from the parameters, the schema and the stored rows
  (U+0000 in a text parameter, a value too long, a duplicate serial, a dangling reference)
  is not part of the environment: the statements below compute it.
\<close>

datatype dbcall =
  PoolQuery | Connect | Begin | SelectRegistration | SelectExistingKey | InsertKey | Commit

record env =
  fault :: "(dbcall \<times> string) option"
  now :: nat
  rnd :: "nat \<Rightarrow> string"

definition throws :: "env \<Rightarrow> dbcall \<Rightarrow> dberror option" where
  "throws e c =
     (case fault e of
        None \<Rightarrow> None
      | Some (c', m) \<Rightarrow> if c' = c then Some (ConnectionError m) else None)"

subsection \<open>The SQL statements\<close>

text \<open>
  A text parameter that holds the character U+0000 is refused when it is bound, before
  the statement runs.
\<close>

definition bind_text :: "string \<Rightarrow> dberror option" where
  "bind_text s = (if CHR 0x00 \<in> set s then Some InvalidByteSequence else None)"

text \<open>
  A value assigned to a \<^verbatim>\<open>VARCHAR(255)\<close> column. Its length is counted in characters:
  in UTF-8 every byte but the continuation bytes (\<open>0x80\<close> to \<open>0xBF\<close>) starts one. A
  value of more than 255 characters is an error unless every character after the 255th is
  a space; then the first 255 characters are stored.
\<close>

definition is_continuation :: "char \<Rightarrow> bool" where
  "is_continuation c = (128 \<le> (of_char c :: nat) \<and> (of_char c :: nat) < 192)"

definition char_length :: "string \<Rightarrow> nat" where
  "char_length s = length (filter (\<lambda>c. \<not> is_continuation c) s)"

fun take_chars :: "nat \<Rightarrow> string \<Rightarrow> string" where
  "take_chars n [] = []"
| "take_chars n (c # cs) =
     (if is_continuation c then c # take_chars n cs
      else (case n of 0 \<Rightarrow> [] | Suc m \<Rightarrow> c # take_chars m cs))"

definition varchar255 :: "string \<Rightarrow> dberror + string" where
  "varchar255 s =
     (if char_length s \<le> 255 then Inr s
      else
        let kept = take_chars 255 s;
            excess = drop (length kept) s
        in if list_all (\<lambda>c. c = CHR '' '') excess then Inr kept else Inl StringTooLong)"

text \<open>
  \<^verbatim>\<open>SELECT EXISTS(SELECT 1 FROM generatedkeys WHERE serial = $1)\<close>; \<open>stored\<close> is the
  comparison with the rows, exact in every character.
\<close>

definition stored :: "string \<Rightarrow> db \<Rightarrow> bool" where
  "stored s d = list_ex (\<lambda>k. serial k = s) (generatedkeys d)"

definition serial_exists :: "string \<Rightarrow> db \<Rightarrow> dberror + bool" where
  "serial_exists s d =
     (case bind_text s of Some err \<Rightarrow> Inl err | None \<Rightarrow> Inr (stored s d))"

text \<open>\<^verbatim>\<open>SELECT * FROM registrations WHERE roblox_username = $1 FOR UPDATE\<close>\<close>

definition select_registrations :: "string \<Rightarrow> db \<Rightarrow> dberror + registration list" where
  "select_registrations u d =
     (case bind_text u of
        Some err \<Rightarrow> Inl err
      | None \<Rightarrow> Inr (filter (\<lambda>r. roblox_username r = u) (registrations d)))"

text \<open>\<^verbatim>\<open>SELECT * FROM generatedkeys WHERE registration_id = $1\<close>\<close>

definition select_keys :: "nat \<Rightarrow> db \<Rightarrow> generatedkey list" where
  "select_keys rid d = filter (\<lambda>k. registration_id k = Some rid) (generatedkeys d)"

text \<open>
  \<^verbatim>\<open>INSERT INTO registrations (roblox_username, discord_username, reason) VALUES ($1, $2, $3)
  RETURNING *\<close>. The two usernames are \<^verbatim>\<open>VARCHAR(255)\<close>, the reason is \<^verbatim>\<open>TEXT\<close>.
  A refused parameter and a value too long fail before the sequence is asked for an id; a
  constraint fails after, and the sequence keeps the value it gave.
\<close>

definition insert_registration ::
  "string \<Rightarrow> string \<Rightarrow> string \<Rightarrow> nat \<Rightarrow> db \<Rightarrow> (dberror \<times> db) + (registration \<times> db)" where
  "insert_registration ru du rs t d =
     (if CHR 0x00 \<in> set ru \<or> CHR 0x00 \<in> set du \<or> CHR 0x00 \<in> set rs
      then Inl (InvalidByteSequence, d)
      else
        (case (varchar255 ru, varchar255 du) of
           (Inr rv, Inr dv) \<Rightarrow>
             (let i = registrations_id_seq d + 1;
                  d1 = d\<lparr>registrations_id_seq := i\<rparr>
              in if list_ex (\<lambda>r. reg_id r = i) (registrations d)
                 then Inl (UniqueViolation ''registrations_pkey'', d1)
                 else
                   let row = \<lparr>reg_id = i, roblox_username = rv, discord_username = dv,
                              reg_created_at = t, reason = Some rs\<rparr>
                   in Inr (row, d1\<lparr>registrations := registrations d @ [row]\<rparr>))
         | _ \<Rightarrow> Inl (StringTooLong, d)))"

text \<open>
  \<^verbatim>\<open>INSERT INTO generatedkeys (registration_id, serial) VALUES ($1, $2) RETURNING *\<close>, and
  with a null \<^verbatim>\<open>registration_id\<close> the statement of \<^verbatim>\<open>/api/save-serial\<close>. The column
  \<^verbatim>\<open>serial\<close> is \<^verbatim>\<open>VARCHAR(255) NOT NULL UNIQUE\<close> and \<^verbatim>\<open>registration_id\<close>
  references \<^verbatim>\<open>registrations(id)\<close>. The row holds the serial as the column stores it.
\<close>

definition insert_key ::
  "nat option \<Rightarrow> string \<Rightarrow> nat \<Rightarrow> db \<Rightarrow> (dberror \<times> db) + (generatedkey \<times> db)" where
  "insert_key rid s t d =
     (case bind_text s of
        Some err \<Rightarrow> Inl (err, d)
      | None \<Rightarrow>
     (case varchar255 s of
        Inl err \<Rightarrow> Inl (err, d)
      | Inr v \<Rightarrow>
     (let i = generatedkeys_id_seq d + 1;
          d1 = d\<lparr>generatedkeys_id_seq := i\<rparr>
      in if list_ex (\<lambda>k. key_id k = i) (generatedkeys d)
         then Inl (UniqueViolation ''generatedkeys_pkey'', d1)
         else if list_ex (\<lambda>k. serial k = v) (generatedkeys d)
         then Inl (UniqueViolation ''generatedkeys_serial_key'', d1)
         else if (case rid of None \<Rightarrow> False
                  | Some r \<Rightarrow> \<not> list_ex (\<lambda>g. reg_id g = r) (registrations d))
         then Inl (ForeignKeyViolation ''generatedkeys_registration_id_fkey'', d1)
         else
           let row = \<lparr>key_id = i, registration_id = rid, serial = v, key_created_at = t\<rparr>
           in Inr (row, d1\<lparr>generatedkeys := generatedkeys d @ [row]\<rparr>))))"

text \<open>
  \<^verbatim>\<open>ROLLBACK\<close>: the tables are again what they were at \<^verbatim>\<open>BEGIN\<close>; the sequences are
  not transactional and keep their values.
\<close>

definition rollback :: "db \<Rightarrow> db \<Rightarrow> db" where
  "rollback snapshot cur =
     cur\<lparr>registrations := registrations snapshot, generatedkeys := generatedkeys snapshot\<rparr>"

subsection \<open>Rows as JSON\<close>

definition registration_json :: "registration \<Rightarrow> json" where
  "registration_json r =
     JObj [(''id'', JNum (reg_id r)),
           (''roblox_username'', JStr (roblox_username r)),
           (''discord_username'', JStr (discord_username r)),
           (''created_at'', JNum (reg_created_at r)),
           (''reason'', (case reason r of None \<Rightarrow> JNull | Some x \<Rightarrow> JStr x))]"

definition key_json :: "generatedkey \<Rightarrow> json" where
  "key_json k =
     JObj [(''id'', JNum (key_id k)),
           (''registration_id'', (case registration_id k of None \<Rightarrow> JNull | Some r \<Rightarrow> JNum r)),
           (''serial'', JStr (serial k)),
           (''created_at'', JNum (key_created_at k))]"

section \<open>The endpoints\<close>

definition internal_error :: response where
  "internal_error = Response 500 (JObj [(''error'', JStr ''Internal server error'')])"

definition serial_required :: response where
  "serial_required = Response 400 (JObj [(''error'', JStr ''Serial key is required'')])"

text \<open>\<^verbatim>\<open>POST /api/validate-users\<close>\<close>

definition validate_users ::
  "string option \<Rightarrow> string option \<Rightarrow> string option \<Rightarrow> env \<Rightarrow> db \<Rightarrow> response \<times> db" where
  "validate_users robloxUsername discordUsername reason_field e d =
     (if \<not> truthy robloxUsername \<or> \<not> truthy discordUsername \<or> \<not> truthy reason_field
      then (Response 400
              (JObj [(''error'', JStr ''Missing required fields''),
                     (''details'',
                      JObj [(''roblox'', JBool (\<not> truthy robloxUsername)),
                            (''discord'', JBool (\<not> truthy discordUsername)),
                            (''reason'', JBool (\<not> truthy reason_field))])]), d)
      else
        let robloxValid = validateRobloxUser (str robloxUsername);
            discordValid = validateDiscordUser (str discordUsername)
        in if \<not> robloxValid \<or> \<not> discordValid
           then (Response 400
                   (JObj [(''error'', JStr ''Invalid usernames''),
                          (''details'',
                           JObj [(''roblox'', JBool (\<not> robloxValid)),
                                 (''discord'', JBool (\<not> discordValid))])]), d)
           else
             (case throws e PoolQuery of
                Some err \<Rightarrow> (internal_error, d)
              | None \<Rightarrow>
                  (case insert_registration (str robloxUsername) (str discordUsername)
                          (str reason_field) (now e) d of
                     Inl (err, d') \<Rightarrow> (internal_error, d')
                   | Inr (row, d') \<Rightarrow>
                       (Response 200
                          (JObj [(''success'', JBool True),
                                 (''data'', registration_json row),
                                 (''validation'',
                                  JObj [(''roblox'', JBool True),
                                        (''discord'', JBool True)])]), d'))))"

text \<open>\<^verbatim>\<open>GET /health\<close>\<close>

definition health :: "env \<Rightarrow> db \<Rightarrow> response \<times> db" where
  "health e d =
     (case throws e PoolQuery of
        None \<Rightarrow>
          (Response 200
             (JObj [(''status'', JStr ''ok''), (''database'', JStr ''connected''),
                    (''timestamp'', JNum (now e))]), d)
      | Some err \<Rightarrow>
          (Response 500
             (JObj [(''status'', JStr ''error''), (''database'', JStr ''disconnected''),
                    (''error'', JStr (error_message err))]), d))"

text \<open>\<^verbatim>\<open>POST /api/check-serial\<close>\<close>

definition check_serial :: "string option \<Rightarrow> env \<Rightarrow> db \<Rightarrow> response \<times> db" where
  "check_serial serial_field e d =
     (if \<not> truthy serial_field then (serial_required, d)
      else
        (case throws e PoolQuery of
           Some err \<Rightarrow> (internal_error, d)
         | None \<Rightarrow>
             (case serial_exists (str serial_field) d of
                Inl err \<Rightarrow> (internal_error, d)
              | Inr found \<Rightarrow> (Response 200 (JObj [(''exists'', JBool found)]), d))))"

text \<open>\<^verbatim>\<open>POST /api/save-serial\<close>\<close>

definition save_serial :: "string option \<Rightarrow> env \<Rightarrow> db \<Rightarrow> response \<times> db" where
  "save_serial serial_field e d =
     (if \<not> truthy serial_field then (serial_required, d)
      else
        (case throws e PoolQuery of
           Some err \<Rightarrow> (internal_error, d)
         | None \<Rightarrow>
             (case insert_key None (str serial_field) (now e) d of
                Inl (err, d') \<Rightarrow> (internal_error, d')
              | Inr (row, d') \<Rightarrow>
                  (Response 200 (JObj [(''success'', JBool True), (''data'', key_json row)]),
                   d'))))"

text \<open>\<^verbatim>\<open>POST /api/validate-download\<close>\<close>

definition validate_download :: "string option \<Rightarrow> env \<Rightarrow> db \<Rightarrow> response \<times> db" where
  "validate_download serial_field e d =
     (if \<not> truthy serial_field then (serial_required, d)
      else
        (case throws e PoolQuery of
           Some err \<Rightarrow> (internal_error, d)
         | None \<Rightarrow>
             (case serial_exists (str serial_field) d of
                Inl err \<Rightarrow> (internal_error, d)
              | Inr found \<Rightarrow> (Response 200 (JObj [(''valid'', JBool found)]), d))))"

subsection \<open>The issuance coordinator\<close>

definition username_required :: response where
  "username_required = Response 400 (JObj [(''error'', JStr ''Roblox username is required'')])"

definition registration_not_found :: response where
  "registration_not_found = Response 404 (JObj [(''error'', JStr ''Registration not found'')])"

definition already_generated :: "string \<Rightarrow> response" where
  "already_generated s =
     Response 400
       (JObj [(''error'', JStr ''Serial key already generated for this registration''),
              (''serialKey'', JStr s)])"

definition issued :: "string \<Rightarrow> response" where
  "issued s = Response 200 (JObj [(''success'', JBool True), (''serialKey'', JStr s)])"

text \<open>
  \<^verbatim>\<open>'scriptxserial_' + Math.random().toString(36).substring(2, 15)
  + Math.random().toString(36).substring(2, 15)\<close>: the first two draws of the request,
  of each the (at most thirteen) characters from index 2 up to index 15.
\<close>

definition substring :: "nat \<Rightarrow> nat \<Rightarrow> string \<Rightarrow> string" where
  "substring i j s = take (j - i) (drop i s)"

definition new_serial :: "env \<Rightarrow> string" where
  "new_serial e = ''scriptxserial_'' @ substring 2 15 (rnd e 0) @ substring 2 15 (rnd e 1)"

text \<open>
  The inner \<^verbatim>\<open>try\<close> block of \<^verbatim>\<open>POST /api/generate-serial\<close>, from \<^verbatim>\<open>BEGIN\<close> to the
  response. \<open>Inl\<close> is a thrown error, with the state of the open transaction at the throw;
  \<open>Inr\<close> is a response sent from inside the block, the two early returns after their own
  \<^verbatim>\<open>ROLLBACK\<close> and the success after \<^verbatim>\<open>COMMIT\<close>.
\<close>

definition generate_serial_tx ::
  "string \<Rightarrow> env \<Rightarrow> db \<Rightarrow> (dberror \<times> db) + (response \<times> db)" where
  "generate_serial_tx robloxUsername e d =
     (case throws e Begin of
        Some err \<Rightarrow> Inl (err, d)
      | None \<Rightarrow>
     (case throws e SelectRegistration of
        Some err \<Rightarrow> Inl (err, d)
      | None \<Rightarrow>
     (case select_registrations robloxUsername d of
        Inl err \<Rightarrow> Inl (err, d)
      | Inr [] \<Rightarrow> Inr (registration_not_found, rollback d d)
      | Inr (reg # _) \<Rightarrow>
     (let registrationId = reg_id reg in
     (case throws e SelectExistingKey of
        Some err \<Rightarrow> Inl (err, d)
      | None \<Rightarrow>
     (case select_keys registrationId d of
        k # _ \<Rightarrow> Inr (already_generated (serial k), rollback d d)
      | [] \<Rightarrow>
     (let serialKey = new_serial e in
     (case throws e InsertKey of
        Some err \<Rightarrow> Inl (err, d)
      | None \<Rightarrow>
     (case insert_key (Some registrationId) serialKey (now e) d of
        Inl (err, d') \<Rightarrow> Inl (err, d')
      | Inr (row, d') \<Rightarrow>
     (case throws e Commit of
        Some err \<Rightarrow> Inl (err, d')
      | None \<Rightarrow> Inr (issued (serial row), d')))))))))))"

text \<open>
  The whole handler: the required-field check, \<^verbatim>\<open>pool.connect()\<close>, the transaction, and
  the two \<^verbatim>\<open>catch\<close> blocks: the inner one rolls back and rethrows, the outer one answers
  500 with the generic message.
\<close>

definition generate_serial :: "string option \<Rightarrow> env \<Rightarrow> db \<Rightarrow> response \<times> db" where
  "generate_serial robloxUsername e d =
     (if \<not> truthy robloxUsername then (username_required, d)
      else
        (case throws e Connect of
           Some err \<Rightarrow> (internal_error, d)
         | None \<Rightarrow>
             (case generate_serial_tx (str robloxUsername) e d of
                Inl (err, cur) \<Rightarrow> (internal_error, rollback d cur)
              | Inr (resp, d') \<Rightarrow> (resp, d'))))"

subsection \<open>The service\<close>

datatype request =
    ValidateUsers "string option" "string option" "string option"
  | Health
  | CheckSerial "string option"
  | SaveSerial "string option"
  | ValidateDownload "string option"
  | GenerateSerial "string option"

fun handle :: "request \<Rightarrow> env \<Rightarrow> db \<Rightarrow> response \<times> db" where
  "handle (ValidateUsers r dn x) e d = validate_users r dn x e d"
| "handle Health e d = health e d"
| "handle (CheckSerial s) e d = check_serial s e d"
| "handle (SaveSerial s) e d = save_serial s e d"
| "handle (ValidateDownload s) e d = validate_download s e d"
| "handle (GenerateSerial u) e d = generate_serial u e d"

text \<open>Requests served one after the other, each in its own environment.\<close>

fun run :: "(request \<times> env) list \<Rightarrow> db \<Rightarrow> db" where
  "run [] d = d"
| "run ((rq, e) # rest) d = run rest (snd (handle rq e d))"

text \<open>The storage after \<^verbatim>\<open>initializeDatabase\<close> on a fresh database.\<close>

definition empty_db :: db where
  "empty_db = \<lparr>registrations = [], generatedkeys = [],
               registrations_id_seq = 0, generatedkeys_id_seq = 0\<rparr>"

section \<open>The invariants and the coordinator of the specification\<close>

text \<open>
  Invariant I1: no two key rows reference the same registration, that is, the non-null
  \<^verbatim>\<open>registration_id\<close>s of the key table are pairwise different.
\<close>

definition linked_ids :: "db \<Rightarrow> nat list" where
  "linked_ids d = List.map_filter registration_id (generatedkeys d)"

definition I1 :: "db \<Rightarrow> bool" where
  "I1 d = distinct (linked_ids d)"

text \<open>
  The coordinator as the specification words its handling of \<^verbatim>\<open>DuplicateKeyError\<close>: an
  attempt whose insert fails on the uniqueness of the serial is caught and followed by
  another attempt with freshly drawn random segments, up to the given number of attempts;
  when they are used up the failure escalates as the storage error.
\<close>

fun spec_issue_with_retry :: "nat \<Rightarrow> string option \<Rightarrow> env \<Rightarrow> db \<Rightarrow> response \<times> db" where
  "spec_issue_with_retry 0 u e d = (internal_error, d)"
| "spec_issue_with_retry (Suc n) u e d =
     (if truthy u \<and> throws e Connect = None then
        (case generate_serial_tx (str u) e d of
           Inl (UniqueViolation c, cur) \<Rightarrow>
             (if c = ''generatedkeys_serial_key''
              then spec_issue_with_retry n u (e\<lparr>rnd := \<lambda>i. rnd e (i + 2)\<rparr>) (rollback d cur)
              else (internal_error, rollback d cur))
         | _ \<Rightarrow> generate_serial u e d)
      else generate_serial u e d)"

section \<open>Scenario data\<close>

text \<open>
  A source of random draws that yields the listed strings in order (and the empty
  string afterwards), and the states of the specification's scenario: \<^verbatim>\<open>Player_1\<close>
  registered; registered with a key issued; registered while an unlinked key with the
  serial of the first two draws is already stored. Then a username that holds U+0000 and
  a serial of 255 letters and one space.
\<close>

definition draws :: "string list \<Rightarrow> nat \<Rightarrow> string" where
  "draws xs i = (if i < length xs then xs ! i else [])"

definition player1 :: registration where
  "player1 = \<lparr>reg_id = 1, roblox_username = ''Player_1'', discord_username = ''user.name'',
              reg_created_at = 10, reason = Some ''testing''\<rparr>"

definition db_registered :: db where
  "db_registered = \<lparr>registrations = [player1], generatedkeys = [],
                     registrations_id_seq = 1, generatedkeys_id_seq = 0\<rparr>"

definition db_issued :: db where
  "db_issued =
     \<lparr>registrations = [player1],
      generatedkeys = [\<lparr>key_id = 1, registration_id = Some 1,
                        serial = ''scriptxserial_abcdef'', key_created_at = 15\<rparr>],
      registrations_id_seq = 1, generatedkeys_id_seq = 1\<rparr>"

definition db_unlinked :: db where
  "db_unlinked =
     \<lparr>registrations = [player1],
      generatedkeys = [\<lparr>key_id = 1, registration_id = None,
                        serial = ''scriptxserial_abcdef'', key_created_at = 15\<rparr>],
      registrations_id_seq = 1, generatedkeys_id_seq = 1\<rparr>"

definition nul_name :: string where
  "nul_name = [CHR ''a'', CHR 0x00, CHR ''b'']"

definition padded_serial :: string where
  "padded_serial = replicate 255 CHR ''a'' @ '' ''"

definition env_ok :: env where
  "env_ok = \<lparr>fault = None, now = 20, rnd = draws [''0.abc'', ''0.def'', ''0.ghi'', ''0.jkl'']\<rparr>"

definition env_fails :: "dbcall \<Rightarrow> string \<Rightarrow> env" where
  "env_fails c m = \<lparr>fault = Some (c, m), now = 20,
                     rnd = draws [''0.abc'', ''0.def'', ''0.ghi'', ''0.jkl'']\<rparr>"

section \<open>Properties of the validator\<close>

lemma rep_test_iff:
  "rep_test cls lo hi s = (lo \<le> length s \<and> length s \<le> hi \<and> list_all (in_class cls) s)"
proof (induction s arbitrary: lo hi)
  case Nil
  show ?case by simp
next
  case (Cons c cs)
  show ?case by (cases hi) (auto simp: Cons.IH)
qed

lemma of_char_underscore: "(of_char c :: nat) = 95 \<longleftrightarrow> c = CHR ''_''"
proof
  assume "(of_char c :: nat) = 95"
  then have "(of_char c :: nat) = of_char CHR ''_''" by simp
  then show "c = CHR ''_''" by (simp only: of_char_eq_iff)
qed simp

lemma roblox_class:
  "in_class [CRange CHR ''a'' CHR ''z'', CRange CHR ''A'' CHR ''Z'',
             CRange CHR ''0'' CHR ''9'', CChar CHR ''_''] c = handle_char c"
  by (auto simp: in_class_def handle_char_def Let_def of_char_underscore)

lemma discord_class:
  "in_class [CRange CHR ''a'' CHR ''z'', CRange CHR ''A'' CHR ''Z'',
             CRange CHR ''0'' CHR ''9'', CChar CHR ''_'', CChar CHR ''.''] c
   = (handle_char c \<or> c = CHR ''.'')"
  by (auto simp: in_class_def handle_char_def Let_def of_char_underscore)

text \<open>
  C6. For every string, \<^verbatim>\<open>validateRobloxUser\<close> is true exactly when the string matches
  \<^verbatim>\<open>^[A-Za-z0-9_]{3,20}$\<close> and \<^verbatim>\<open>validateDiscordUser\<close> exactly when it matches
  \<^verbatim>\<open>^[A-Za-z0-9_.]{2,32}$\<close>. Both are total functions of their argument alone (no
  state, no error value), so the pair of results is the same whichever is evaluated first.
\<close>

theorem validators_match_spec_patterns:
  "validateRobloxUser r = spec_roblox_pattern r
   \<and> validateDiscordUser d = spec_discord_pattern d
   \<and> prod.swap (validateDiscordUser d, validateRobloxUser r)
       = (validateRobloxUser r, validateDiscordUser d)"
proof -
  have cr: "in_class [CRange CHR ''a'' CHR ''z'', CRange CHR ''A'' CHR ''Z'',
             CRange CHR ''0'' CHR ''9'', CChar CHR ''_''] = handle_char"
    by (rule ext) (rule roblox_class)
  have cd: "in_class [CRange CHR ''a'' CHR ''z'', CRange CHR ''A'' CHR ''Z'',
             CRange CHR ''0'' CHR ''9'', CChar CHR ''_'', CChar CHR ''.'']
            = (\<lambda>c. handle_char c \<or> c = CHR ''.'')"
    by (rule ext) (rule discord_class)
  have "validateRobloxUser r = spec_roblox_pattern r"
    by (simp add: validateRobloxUser_def robloxUsernameRegex_def spec_roblox_pattern_def
                  rep_test_iff cr)
  moreover have "validateDiscordUser d = spec_discord_pattern d"
    by (simp add: validateDiscordUser_def discordUsernameRegex_def spec_discord_pattern_def
                  rep_test_iff cd)
  ultimately show ?thesis by simp
qed

theorem validators_match_spec_patterns_witness:
  "validateRobloxUser ''Player_1'' \<and> validateDiscordUser ''user.name''
   \<and> \<not> validateRobloxUser ''user.name'' \<and> \<not> validateDiscordUser ''x''"
  using validators_match_spec_patterns [of "''Player_1''" "''user.name''"]
        validators_match_spec_patterns [of "''user.name''" "''x''"]
  by (simp add: spec_roblox_pattern_def spec_discord_pattern_def handle_char_def)

section \<open>Properties of the storage statements and the coordinator\<close>

lemma rollback_same [simp]: "rollback d d = d"
  by (simp add: rollback_def)

lemma rollback_fields [simp]:
  "registrations (rollback d cur) = registrations d"
  "generatedkeys (rollback d cur) = generatedkeys d"
  by (simp_all add: rollback_def)

lemma throws_no_fault [simp]: "fault e = None \<Longrightarrow> throws e c = None"
  by (simp add: throws_def)

lemma truthy_Some [simp]: "truthy (Some u) = (u \<noteq> [])"
  by (simp add: truthy_def)

lemma str_Some [simp]: "str (Some u) = u"
  by (simp add: str_def)

lemma issued_status [simp]: "status (issued s) = 200"
  by (simp add: issued_def)

lemma draws_simps [simp]:
  "draws (x # xs) 0 = x"
  "draws (x # xs) (Suc n) = draws xs n"
  "draws [] n = []"
  by (simp_all add: draws_def)


lemma char_length_le: "char_length s \<le> length s"
  by (simp add: char_length_def)

lemma varchar255_short: "length s \<le> 255 \<Longrightarrow> varchar255 s = Inr s"
  using char_length_le [of s] by (simp add: varchar255_def)

lemma varchar255_fits: "char_length s \<le> 255 \<Longrightarrow> varchar255 s = Inr s"
  by (simp add: varchar255_def)

lemma length_new_serial: "length (new_serial e) \<le> 40"
  by (simp add: new_serial_def substring_def)

lemma varchar255_new_serial [simp]: "varchar255 (new_serial e) = Inr (new_serial e)"
  using length_new_serial [of e] by (intro varchar255_short) simp

text \<open>An insert that fails leaves the tables; the sequence stays or moves by one.\<close>

lemma insert_key_Inl:
  "insert_key rid s t d = Inl (err, d') \<Longrightarrow>
     d' = d \<or> d' = d\<lparr>generatedkeys_id_seq := generatedkeys_id_seq d + 1\<rparr>"
  by (auto simp: insert_key_def Let_def split: if_splits option.splits sum.splits)

lemma insert_key_Inl_tables:
  "insert_key rid s t d = Inl (err, d') \<Longrightarrow> tables d' = tables d"
  by (auto simp: tables_def dest!: insert_key_Inl)

lemma insert_key_Inr:
  "insert_key rid s t d = Inr (row, d') \<Longrightarrow>
     d' = d\<lparr>generatedkeys_id_seq := generatedkeys_id_seq d + 1,
            generatedkeys := generatedkeys d @ [row]\<rparr>
     \<and> registration_id row = rid \<and> varchar255 s = Inr (serial row)"
  by (auto simp: insert_key_def Let_def split: if_splits option.splits sum.splits)

lemma insert_registration_keys:
  "insert_registration ru du rs t d = Inl (err, d') \<Longrightarrow> tables d' = tables d"
  "insert_registration ru du rs t d = Inr (row, d') \<Longrightarrow> generatedkeys d' = generatedkeys d"
  by (auto simp: insert_registration_def Let_def tables_def split: if_splits sum.splits)

lemma existing_key_400:
  assumes "u \<noteq> []" "fault e = None" "select_registrations u d = Inr (reg # rest)"
    "select_keys (reg_id reg) d = k # ks"
  shows "generate_serial (Some u) e d = (already_generated (serial k), d)"
  using assms by (simp add: generate_serial_def generate_serial_tx_def)

text \<open>
  What a request to the coordinator can do to the storage: with a response other than 200,
  nothing but at most one step of the key id sequence; with the response 200, one insert
  of a key linked to the first matching registration, which had none, the response
  carrying the serial of the inserted row.
\<close>

lemma generate_serial_cases:
  assumes "generate_serial u e d = (r, d')"
  shows "(status r \<noteq> 200
           \<and> (d' = d \<or> d' = d\<lparr>generatedkeys_id_seq := generatedkeys_id_seq d + 1\<rparr>)) \<or>
         (\<exists>reg rest row. truthy u \<and> select_registrations (str u) d = Inr (reg # rest)
            \<and> select_keys (reg_id reg) d = []
            \<and> insert_key (Some (reg_id reg)) (new_serial e) (now e) d = Inr (row, d')
            \<and> r = issued (serial row))"
  using assms
  by (auto simp: generate_serial_def generate_serial_tx_def Let_def username_required_def
      internal_error_def registration_not_found_def already_generated_def rollback_def
      split: if_splits option.splits list.splits sum.splits prod.splits
      dest!: insert_key_Inl insert_key_Inr)

lemma select_after_insert:
  assumes "insert_key (Some rid) s t d = Inr (row, d')" "select_keys rid d = []"
  shows "select_keys rid d' = [row]" "select_registrations u d' = select_registrations u d"
  using insert_key_Inr [OF assms(1)] assms(2)
  by (simp_all add: select_keys_def select_registrations_def split: option.splits)

lemma second_call:
  assumes "fault e2 = None" "generate_serial uf e1 d = (r1, d1)" "status r1 = 200"
  shows "\<exists>s. r1 = issued s \<and> generate_serial uf e2 d1 = (already_generated s, d1)"
proof -
  from generate_serial_cases [OF assms(2)] assms(3)
  obtain reg rest row where u: "truthy uf"
    and sr: "select_registrations (str uf) d = Inr (reg # rest)"
    and sk: "select_keys (reg_id reg) d = []"
    and ins: "insert_key (Some (reg_id reg)) (new_serial e1) (now e1) d = Inr (row, d1)"
    and r1: "r1 = issued (serial row)"
    by auto
  from u obtain u' where uf: "uf = Some u'" and u': "u' \<noteq> []"
    by (cases uf) (simp_all add: truthy_def)
  have "select_keys (reg_id reg) d1 = [row]" "select_registrations u' d1 = Inr (reg # rest)"
    using select_after_insert [OF ins sk] sr uf by simp_all
  then have "generate_serial (Some u') e2 d1 = (already_generated (serial row), d1)"
    using existing_key_400 [OF u' assms(1)] by blast
  with r1 uf show ?thesis by blast
qed

text \<open>
  C1 (as amended). When the first matching registration already has a linked key, the
  coordinator answers with status 400, the error text "Serial key already generated for
  this registration" and the serial of the existing key, and leaves the storage as it
  was. After a call that issued a key (status 200), a second call for the same username
  answers 400 with the same serial and the storage is the same after it as before it: no
  second key row.
\<close>

theorem existing_key_answered_400_with_same_serial:
  "(u \<noteq> [] \<and> fault e = None \<and> select_registrations u d = Inr (reg # rest)
      \<and> select_keys (reg_id reg) d = k # ks
      \<longrightarrow> generate_serial (Some u) e d = (already_generated (serial k), d))
   \<and> (fault eb = None \<and> generate_serial uf ea da = (ra, dn) \<and> status ra = 200
      \<longrightarrow> (\<exists>s. ra = issued s \<and> generate_serial uf eb dn = (already_generated s, dn)))"
  using existing_key_400 second_call by blast

lemma bind_text_Player_1 [simp]: "bind_text ''Player_1'' = None"
  by (simp add: bind_text_def)

lemma new_serial_env_ok [simp]: "new_serial env_ok = ''scriptxserial_abcdef''"
  by (simp add: new_serial_def substring_def env_ok_def)

lemma new_serial_env_fails [simp]: "new_serial (env_fails c m) = ''scriptxserial_abcdef''"
  by (simp add: new_serial_def substring_def env_fails_def)

lemma bind_text_example_serial [simp]: "bind_text ''scriptxserial_abcdef'' = None"
  by (simp add: bind_text_def)

lemma varchar255_example_serial [simp]:
  "varchar255 ''scriptxserial_abcdef'' = Inr ''scriptxserial_abcdef''"
  by (rule varchar255_short) simp

theorem existing_key_answered_400_with_same_serial_witness:
  "generate_serial (Some ''Player_1'') env_ok db_issued
     = (already_generated ''scriptxserial_abcdef'', db_issued)
   \<and> fst (generate_serial (Some ''Player_1'') env_ok db_registered)
       = issued ''scriptxserial_abcdef''
   \<and> generate_serial (Some ''Player_1'') env_ok
        (snd (generate_serial (Some ''Player_1'') env_ok db_registered))
      = (already_generated ''scriptxserial_abcdef'',
         snd (generate_serial (Some ''Player_1'') env_ok db_registered))"
proof -
  have g: "generate_serial (Some ''Player_1'') env_ok db_registered
           = (fst (generate_serial (Some ''Player_1'') env_ok db_registered),
              snd (generate_serial (Some ''Player_1'') env_ok db_registered))"
    by simp
  have f: "fault env_ok = None"
    by (simp add: env_ok_def)
  have i: "fst (generate_serial (Some ''Player_1'') env_ok db_registered)
           = issued ''scriptxserial_abcdef''"
    by (simp add: generate_serial_def generate_serial_tx_def select_registrations_def
        select_keys_def insert_key_def new_serial_def substring_def bind_text_def
        throws_def Let_def db_registered_def player1_def env_ok_def)
  then have s: "status (fst (generate_serial (Some ''Player_1'') env_ok db_registered)) = 200"
    by simp
  have r: "select_registrations ''Player_1'' db_issued = Inr (player1 # [])"
    by (simp add: select_registrations_def db_issued_def player1_def)
  have k: "select_keys (reg_id player1) db_issued
           = \<lparr>key_id = 1, registration_id = Some 1, serial = ''scriptxserial_abcdef'',
               key_created_at = 15\<rparr> # []"
    by (simp add: select_keys_def db_issued_def player1_def)
  from existing_key_answered_400_with_same_serial
         [where u = "''Player_1''" and e = env_ok and d = db_issued and reg = player1
            and rest = "[]" and ks = "[]" and eb = env_ok and uf = "Some ''Player_1''"
            and ea = env_ok and da = db_registered
            and ra = "fst (generate_serial (Some ''Player_1'') env_ok db_registered)"
            and dn = "snd (generate_serial (Some ''Player_1'') env_ok db_registered)"]
       g i s f r k
  show ?thesis by (auto simp: issued_def)
qed

text \<open>
  C1 as the specification states it fails: with a key already linked to the registration
  of \<^verbatim>\<open>Player_1\<close>, the response is not a success but the status 400 with an
  \<^verbatim>\<open>error\<close> field.
\<close>

theorem existing_key_is_not_a_success_counterexample:
  "generate_serial (Some ''Player_1'') env_ok db_issued
     = (Response 400
          (JObj [(''error'', JStr ''Serial key already generated for this registration''),
                 (''serialKey'', JStr ''scriptxserial_abcdef'')]), db_issued)
   \<and> status (fst (generate_serial (Some ''Player_1'') env_ok db_issued)) \<noteq> 200"
  by (simp add: generate_serial_def generate_serial_tx_def select_registrations_def
      select_keys_def db_issued_def env_ok_def player1_def throws_def already_generated_def)

text \<open>
  C7 (as amended). For a username that passes the required-field check, that the storage
  accepts as a parameter (it holds no U+0000) and that matches no registration, when no
  storage call fails, the coordinator rolls back and answers 404 "Registration not
  found"; the storage, sequences included, is what it was.
\<close>

theorem unknown_username_not_found:
  assumes "u \<noteq> []" and "fault e = None" and "select_registrations u d = Inr []"
  shows "generate_serial (Some u) e d = (registration_not_found, d)"
  using assms by (simp add: generate_serial_def generate_serial_tx_def)

theorem unknown_username_not_found_witness:
  "select_registrations ''Player_1'' empty_db = Inr []
   \<and> generate_serial (Some ''Player_1'') env_ok empty_db
     = (Response 404 (JObj [(''error'', JStr ''Registration not found'')]), empty_db)"
proof -
  have n: "''Player_1'' \<noteq> []" by simp
  have f: "fault env_ok = None" by (simp add: env_ok_def)
  have r: "select_registrations ''Player_1'' empty_db = Inr []"
    by (simp add: select_registrations_def empty_db_def)
  from unknown_username_not_found [OF n f r] r show ?thesis
    by (simp add: registration_not_found_def)
qed

text \<open>
  C7 as the specification states it fails: on the empty database no registration matches
  the empty username nor the username \<open>a\<close>, U+0000, \<open>b\<close>, and the answers are
  400 "Roblox username is required" for the first and the generic 500 for the second,
  whose lookup the storage refuses.
\<close>

theorem unknown_username_other_answers_counterexample:
  "generate_serial (Some []) env_ok empty_db
     = (Response 400 (JObj [(''error'', JStr ''Roblox username is required'')]), empty_db)
   \<and> generate_serial (Some nul_name) env_ok empty_db
     = (Response 500 (JObj [(''error'', JStr ''Internal server error'')]), empty_db)"
  by (simp add: generate_serial_def generate_serial_tx_def select_registrations_def
      bind_text_def nul_name_def env_ok_def throws_def username_required_def
      internal_error_def)




text \<open>
  C3 (as amended). The coordinator has no retry: when the registration exists without a
  key and the serial it generated is already stored, the one insert fails, the
  transaction is rolled back and the caller gets the generic 500 response, whatever the
  later draws of the random source would have been. Only the id sequence has moved.
\<close>

theorem duplicate_serial_fails_without_retry:
  assumes "u \<noteq> []" and "fault e = None"
    and "select_registrations u d = Inr (reg # rest)"
    and "select_keys (reg_id reg) d = []" and "serial_exists (new_serial e) d = Inr True"
  shows "generate_serial (Some u) e d
         = (internal_error, d\<lparr>generatedkeys_id_seq := generatedkeys_id_seq d + 1\<rparr>)"
  using assms
  by (auto simp: generate_serial_def generate_serial_tx_def insert_key_def Let_def
      serial_exists_def stored_def rollback_def split: option.splits)

theorem duplicate_serial_fails_without_retry_witness:
  "select_registrations ''Player_1'' db_unlinked = Inr [player1]
   \<and> select_keys (reg_id player1) db_unlinked = []
   \<and> serial_exists (new_serial env_ok) db_unlinked = Inr True
   \<and> generate_serial (Some ''Player_1'') env_ok db_unlinked
       = (Response 500 (JObj [(''error'', JStr ''Internal server error'')]),
          db_unlinked\<lparr>generatedkeys_id_seq := 2\<rparr>)"
proof -
  have n: "''Player_1'' \<noteq> []" by simp
  have f: "fault env_ok = None" by (simp add: env_ok_def)
  have r: "select_registrations ''Player_1'' db_unlinked = Inr (player1 # [])"
    by (simp add: select_registrations_def db_unlinked_def player1_def)
  have k: "select_keys (reg_id player1) db_unlinked = []"
    by (simp add: select_keys_def db_unlinked_def player1_def)
  have x: "serial_exists (new_serial env_ok) db_unlinked = Inr True"
    by (simp add: serial_exists_def stored_def db_unlinked_def)
  have q: "generatedkeys_id_seq db_unlinked + 1 = 2"
    by (simp add: db_unlinked_def)
  from duplicate_serial_fails_without_retry [OF n f r k x] r k x q
  show ?thesis by (simp add: internal_error_def)
qed

text \<open>
  C3 as the specification states it fails: \<^verbatim>\<open>Player_1\<close> is registered without a key,
  the serial of the first two draws is already stored as an unlinked key and the serial
  of the next two draws is free. The coordinator of the specification, allowed two
  attempts, issues the second serial; the handler answers 500 after its single attempt.
\<close>

theorem duplicate_serial_not_retried_counterexample:
  "generate_serial (Some ''Player_1'') env_ok db_unlinked
     = (internal_error, db_unlinked\<lparr>generatedkeys_id_seq := 2\<rparr>)
   \<and> fst (spec_issue_with_retry 2 (Some ''Player_1'') env_ok db_unlinked)
     = issued ''scriptxserial_ghijkl''"
proof (rule conjI)
  show "generate_serial (Some ''Player_1'') env_ok db_unlinked
          = (internal_error, db_unlinked\<lparr>generatedkeys_id_seq := 2\<rparr>)"
    by (simp add: generate_serial_def generate_serial_tx_def select_registrations_def
        select_keys_def insert_key_def new_serial_def substring_def bind_text_def
        db_unlinked_def env_ok_def player1_def throws_def Let_def rollback_def)
  have v: "varchar255 ''scriptxserial_ghijkl'' = Inr ''scriptxserial_ghijkl''"
    by (rule varchar255_short) simp
  show "fst (spec_issue_with_retry 2 (Some ''Player_1'') env_ok db_unlinked)
          = issued ''scriptxserial_ghijkl''"
    by (simp add: numeral_2_eq_2 generate_serial_def generate_serial_tx_def
        select_registrations_def select_keys_def insert_key_def new_serial_def
        substring_def bind_text_def v
        db_unlinked_def env_ok_def player1_def throws_def Let_def rollback_def)
qed

section \<open>Invariant I1\<close>

lemma map_filter_Cons:
  "List.map_filter f (x # xs)
   = (case f x of None \<Rightarrow> [] | Some r \<Rightarrow> [r]) @ List.map_filter f xs"
  by (simp add: List.map_filter_def split: option.splits)

lemma map_filter_snoc:
  "List.map_filter f (xs @ [x])
   = List.map_filter f xs @ (case f x of None \<Rightarrow> [] | Some r \<Rightarrow> [r])"
  by (simp add: List.map_filter_def split: option.splits)

lemma filter_Some_empty_iff:
  "filter (\<lambda>k. f k = Some r) xs = [] \<longleftrightarrow> r \<notin> set (List.map_filter f xs)"
  by (auto simp: List.map_filter_def filter_empty_conv image_iff)

text \<open>
  The values under \<open>Some\<close> are pairwise different exactly when each of them is the
  value of at most one element.
\<close>

lemma distinct_map_filter_count:
  "distinct (List.map_filter f xs)
   \<longleftrightarrow> (\<forall>r. length (filter (\<lambda>k. f k = Some r) xs) \<le> 1)"
proof (induction xs)
  case Nil
  show ?case by (simp add: List.map_filter_def)
next
  case (Cons x xs)
  show ?case
  proof (cases "f x")
    case None
    then show ?thesis using Cons.IH by (simp add: map_filter_Cons)
  next
    case (Some a)
    have "(\<forall>r. length (filter (\<lambda>k. f k = Some r) (x # xs)) \<le> 1)
          \<longleftrightarrow> filter (\<lambda>k. f k = Some a) xs = []
              \<and> (\<forall>r. length (filter (\<lambda>k. f k = Some r) xs) \<le> 1)"
      (is "?L \<longleftrightarrow> ?A \<and> ?B")
    proof
      assume l: ?L
      from l [rule_format, of a] Some have ?A by simp
      moreover have ?B
      proof
        fix r
        from l [rule_format, of r] show "length (filter (\<lambda>k. f k = Some r) xs) \<le> 1"
          by (simp split: if_splits)
      qed
      ultimately show "?A \<and> ?B" ..
    next
      assume ab: "?A \<and> ?B"
      show ?L
      proof
        fix r
        show "length (filter (\<lambda>k. f k = Some r) (x # xs)) \<le> 1"
          using ab Some by (cases "r = a") auto
      qed
    qed
    then show ?thesis
      using Cons.IH Some by (simp add: map_filter_Cons filter_Some_empty_iff)
  qed
qed

lemma I1_count: "I1 d \<longleftrightarrow> (\<forall>r. length (select_keys r d) \<le> 1)"
  by (simp add: I1_def linked_ids_def select_keys_def distinct_map_filter_count)

lemma select_keys_empty_iff: "select_keys r d = [] \<longleftrightarrow> r \<notin> set (linked_ids d)"
  by (simp add: select_keys_def linked_ids_def filter_Some_empty_iff)

lemma tables_linked: "tables d' = tables d \<Longrightarrow> linked_ids d' = linked_ids d"
  by (simp add: tables_def linked_ids_def)

lemma I1_insert_key:
  assumes "insert_key rid s t d = Inr (row, d')" and "I1 d"
    and "case rid of None \<Rightarrow> True | Some r \<Rightarrow> select_keys r d = []"
  shows "I1 d'"
  using insert_key_Inr [OF assms(1)] assms(2,3)
  by (auto simp: I1_def linked_ids_def map_filter_snoc select_keys_empty_iff
      split: option.splits)

lemma I1_generate_serial: "I1 d \<Longrightarrow> I1 (snd (generate_serial u e d))"
  using generate_serial_cases [of u e d "fst (generate_serial u e d)"
                                 "snd (generate_serial u e d)"]
  by (auto simp: I1_def linked_ids_def dest: I1_insert_key)

lemma I1_save_serial: "I1 d \<Longrightarrow> I1 (snd (save_serial s e d))"
  by (auto simp: save_serial_def I1_def split: option.splits sum.splits
      dest: insert_key_Inl_tables [THEN tables_linked] I1_insert_key)

lemma I1_validate_users: "I1 d \<Longrightarrow> I1 (snd (validate_users r dn x e d))"
  by (auto simp: validate_users_def Let_def I1_def linked_ids_def
      split: option.splits sum.splits
      dest: insert_registration_keys(1) [THEN tables_linked] insert_registration_keys(2))

lemma I1_handle: "I1 d \<Longrightarrow> I1 (snd (handle rq e d))"
  by (cases rq)
     (simp_all add: I1_generate_serial I1_save_serial I1_validate_users
        health_def check_serial_def validate_download_def split: option.splits sum.splits)

lemma I1_run: "I1 d \<Longrightarrow> I1 (run rs d)"
  by (induction rs arbitrary: d) (auto simp: I1_handle)

lemma save_serial_links_nothing: "linked_ids (snd (save_serial s e d)) = linked_ids d"
  by (auto simp: save_serial_def linked_ids_def map_filter_snoc
      split: option.splits sum.splits
      dest: insert_key_Inl_tables [THEN tables_linked] insert_key_Inr)

text \<open>
  C5. Every operation of the service preserves I1: if every registration id is referenced
  by at most one key row before a request, so it is after the request, whatever the
  request, its environment and the storage; hence also after any sequence of requests
  from the empty database. The unlinked-save path leaves the linked registration ids as
  they were.
\<close>

theorem I1_preserved_by_every_operation:
  "((\<forall>r. length (select_keys r d) \<le> 1)
      \<longrightarrow> (\<forall>r. length (select_keys r (snd (handle rq e d))) \<le> 1))
   \<and> (\<forall>r. length (select_keys r (run rs empty_db)) \<le> 1)
   \<and> linked_ids (snd (save_serial s e d)) = linked_ids d"
proof -
  have "I1 empty_db" by (simp add: I1_def linked_ids_def empty_db_def List.map_filter_def)
  then have "I1 (run rs empty_db)" by (rule I1_run)
  then show ?thesis
    using I1_handle [of d rq e] by (simp add: I1_count save_serial_links_nothing)
qed

theorem I1_preserved_by_every_operation_witness:
  "(\<forall>r. length (select_keys r db_issued) \<le> 1)
   \<and> (\<forall>r. length (select_keys r
                (snd (handle (GenerateSerial (Some ''Player_1'')) env_ok db_issued))) \<le> 1)
   \<and> select_keys 1 (snd (handle (GenerateSerial (Some ''Player_1'')) env_ok db_issued))
       = generatedkeys db_issued"
proof -
  have h: "\<forall>r. length (select_keys r db_issued) \<le> 1"
    by (simp add: select_keys_def db_issued_def)
  have k: "select_keys 1 (snd (handle (GenerateSerial (Some ''Player_1'')) env_ok db_issued))
           = generatedkeys db_issued"
    by (simp add: generate_serial_def generate_serial_tx_def select_registrations_def
        select_keys_def db_issued_def env_ok_def player1_def throws_def)
  from I1_preserved_by_every_operation
         [where d = db_issued and rq = "GenerateSerial (Some ''Player_1'')" and e = env_ok]
       h k
  show ?thesis by blast
qed

section \<open>The serial checks\<close>

text \<open>No request removes a key: a stored serial stays stored.\<close>

lemma stored_handle:
  assumes "stored s d"
  shows "stored s (snd (handle rq e d))"
proof (cases rq)
  case (ValidateUsers r dn x)
  then show ?thesis using assms
    by (auto simp: validate_users_def Let_def stored_def tables_def
        split: option.splits sum.splits
        dest: insert_registration_keys(2) insert_registration_keys(1))
next
  case Health
  then show ?thesis using assms by (simp add: health_def split: option.splits)
next
  case (CheckSerial x)
  then show ?thesis using assms
    by (simp add: check_serial_def split: option.splits sum.splits)
next
  case (SaveSerial x)
  then show ?thesis using assms
    by (auto simp: save_serial_def stored_def tables_def split: option.splits sum.splits
        dest: insert_key_Inl_tables insert_key_Inr)
next
  case (ValidateDownload x)
  then show ?thesis using assms
    by (simp add: validate_download_def split: option.splits sum.splits)
next
  case (GenerateSerial u)
  then show ?thesis
    using assms generate_serial_cases [of u e d "fst (generate_serial u e d)"
                                         "snd (generate_serial u e d)"]
    by (auto simp: stored_def dest: insert_key_Inr)
qed

lemma stored_run: "stored s d \<Longrightarrow> stored s (run rs d)"
  by (induction rs arbitrary: d) (auto simp: stored_handle)

lemma save_serial_200:
  assumes "save_serial sf e d = (r, d')" and "status r = 200"
  shows "truthy sf \<and> bind_text (str sf) = None
         \<and> (\<exists>v. varchar255 (str sf) = Inr v \<and> stored v d')"
  using assms
  by (auto simp: save_serial_def serial_required_def internal_error_def stored_def
      insert_key_def Let_def
      split: if_splits option.splits sum.splits)

text \<open>
  C8 (as amended). After a save through \<^verbatim>\<open>/api/save-serial\<close> that succeeded (status
  200) of a serial of at most 255 characters, and after any further requests served since,
  the existence check and the download validation of the same serial string, when their
  query does not fail, both answer 200 with the flag true.
\<close>

theorem saved_serial_within_column_is_found:
  assumes "save_serial sf e d = (r, d')" and "status r = 200"
    and "char_length (str sf) \<le> 255"
    and "fault ec = None" and "fault ev = None"
  shows "check_serial sf ec (run rs d')
           = (Response 200 (JObj [(''exists'', JBool True)]), run rs d')
         \<and> validate_download sf ev (run rs d')
           = (Response 200 (JObj [(''valid'', JBool True)]), run rs d')"
proof -
  from save_serial_200 [OF assms(1,2)] varchar255_fits [OF assms(3)]
  have t: "truthy sf" and b: "bind_text (str sf) = None" and s: "stored (str sf) d'"
    by auto
  from s have "stored (str sf) (run rs d')" by (rule stored_run)
  with t b assms(4,5) show ?thesis
    by (simp add: check_serial_def validate_download_def serial_exists_def)
qed

theorem saved_serial_within_column_is_found_witness:
  "status (fst (save_serial (Some ''free_key'') env_ok db_registered)) = 200
   \<and> char_length ''free_key'' \<le> 255
   \<and> check_serial (Some ''free_key'') env_ok
        (run [(GenerateSerial (Some ''Player_1''), env_ok)]
           (snd (save_serial (Some ''free_key'') env_ok db_registered)))
      = (Response 200 (JObj [(''exists'', JBool True)]),
         run [(GenerateSerial (Some ''Player_1''), env_ok)]
           (snd (save_serial (Some ''free_key'') env_ok db_registered)))
   \<and> validate_download (Some ''free_key'') env_ok
        (run [(GenerateSerial (Some ''Player_1''), env_ok)]
           (snd (save_serial (Some ''free_key'') env_ok db_registered)))
      = (Response 200 (JObj [(''valid'', JBool True)]),
         run [(GenerateSerial (Some ''Player_1''), env_ok)]
           (snd (save_serial (Some ''free_key'') env_ok db_registered)))"
proof -
  have p: "save_serial (Some ''free_key'') env_ok db_registered
           = (fst (save_serial (Some ''free_key'') env_ok db_registered),
              snd (save_serial (Some ''free_key'') env_ok db_registered))"
    by simp
  have v: "varchar255 ''free_key'' = Inr ''free_key''" by (rule varchar255_short) simp
  have s: "status (fst (save_serial (Some ''free_key'') env_ok db_registered)) = 200"
    by (simp add: save_serial_def insert_key_def bind_text_def v db_registered_def
        env_ok_def throws_def Let_def)
  have c': "char_length ''free_key'' \<le> 255"
    using char_length_le [of "''free_key''"] by simp
  then have c: "char_length (str (Some ''free_key'')) \<le> 255"
    by simp
  have f: "fault env_ok = None" by (simp add: env_ok_def)
  from saved_serial_within_column_is_found
         [OF p s c f f, where rs = "[(GenerateSerial (Some ''Player_1''), env_ok)]"] s c'
  show ?thesis by blast
qed

text \<open>
  The serial of 255 letters and one space: the column stores the 255 letters.
\<close>

lemma filter_replicate_same: "filter P (replicate n x) = (if P x then replicate n x else [])"
  by (induction n) simp_all

lemma take_chars_replicate:
  "\<not> is_continuation c \<Longrightarrow> take_chars (n + m) (replicate n c @ xs) = replicate n c @ take_chars m xs"
  by (induction n) simp_all

lemma varchar255_padded: "varchar255 padded_serial = Inr (replicate 255 CHR ''a'')"
proof -
  have a: "\<not> is_continuation CHR ''a''" and b: "\<not> is_continuation CHR '' ''"
    by (simp_all add: is_continuation_def)
  have l: "char_length padded_serial = 256"
    by (simp add: char_length_def padded_serial_def filter_replicate_same a b)
  have t: "take_chars 255 padded_serial = replicate 255 CHR ''a''"
    using take_chars_replicate [OF a, of 255 0 "'' ''"] b by (simp add: padded_serial_def)
  show ?thesis
    by (simp add: varchar255_def l t Let_def) (simp add: padded_serial_def)
qed

lemma bind_text_padded: "bind_text padded_serial = None"
  by (simp add: bind_text_def padded_serial_def)

text \<open>
  C8 as the specification states it fails: the save of the serial of 255 letters and one
  space succeeds, and both checks of that exact string then answer false, the stored
  serial being the 255 letters.
\<close>

theorem padded_serial_saved_but_not_found_counterexample:
  "status (fst (save_serial (Some padded_serial) env_ok db_registered)) = 200
   \<and> fst (check_serial (Some padded_serial) env_ok
            (snd (save_serial (Some padded_serial) env_ok db_registered)))
     = Response 200 (JObj [(''exists'', JBool False)])
   \<and> fst (validate_download (Some padded_serial) env_ok
            (snd (save_serial (Some padded_serial) env_ok db_registered)))
     = Response 200 (JObj [(''valid'', JBool False)])"
proof -
  have ne: "padded_serial \<noteq> []" by (simp add: padded_serial_def)
  have f: "fault env_ok = None" by (simp add: env_ok_def)
  have k: "generatedkeys db_registered = []" by (simp add: db_registered_def)
  have d: "replicate 255 CHR ''a'' \<noteq> padded_serial" by (simp add: padded_serial_def)
  show ?thesis
    by (simp add: save_serial_def check_serial_def validate_download_def insert_key_def
        serial_exists_def stored_def bind_text_padded varchar255_padded ne f k d Let_def)
qed

text \<open>
  C10. For every serial field (absent, empty or a string), every environment and every
  storage, \<^verbatim>\<open>/api/check-serial\<close> and \<^verbatim>\<open>/api/validate-download\<close> answer with the same
  status, the \<^verbatim>\<open>exists\<close> flag of the one is the \<^verbatim>\<open>valid\<close> flag of the other (both
  absent in the 400 and 500 responses, whose \<^verbatim>\<open>error\<close> texts agree), and neither
  changes the storage.
\<close>

theorem check_serial_agrees_with_validate_download:
  "status (fst (check_serial sf e d)) = status (fst (validate_download sf e d))
   \<and> field ''exists'' (body (fst (check_serial sf e d)))
     = field ''valid'' (body (fst (validate_download sf e d)))
   \<and> field ''error'' (body (fst (check_serial sf e d)))
     = field ''error'' (body (fst (validate_download sf e d)))
   \<and> snd (check_serial sf e d) = d \<and> snd (validate_download sf e d) = d"
  by (simp add: check_serial_def validate_download_def serial_required_def internal_error_def
      split: option.splits sum.splits)

theorem check_serial_agrees_with_validate_download_witness:
  "field ''valid'' (body (fst (validate_download (Some ''scriptxserial_abcdef'') env_ok
                                 db_issued))) = Some (JBool True)
   \<and> field ''exists'' (body (fst (check_serial (Some ''scriptxserial_abcdef'') env_ok
                                    db_issued))) = Some (JBool True)
   \<and> field ''valid'' (body (fst (validate_download None env_ok db_issued))) = None
   \<and> field ''exists'' (body (fst (check_serial None env_ok db_issued))) = None
   \<and> status (fst (check_serial None env_ok db_issued)) = 400"
proof -
  have a: "field ''valid'' (body (fst (validate_download (Some ''scriptxserial_abcdef'')
             env_ok db_issued))) = Some (JBool True)"
    by (simp add: validate_download_def serial_exists_def stored_def bind_text_def
        db_issued_def env_ok_def throws_def)
  have b: "field ''valid'' (body (fst (validate_download None env_ok db_issued))) = None"
    by (simp add: validate_download_def truthy_def serial_required_def)
  have c: "status (fst (validate_download None env_ok db_issued)) = 400"
    by (simp add: validate_download_def truthy_def serial_required_def)
  from check_serial_agrees_with_validate_download
         [of "Some ''scriptxserial_abcdef''" env_ok db_issued]
       check_serial_agrees_with_validate_download [of None env_ok db_issued] a b c
  show ?thesis by simp
qed

section \<open>What a storage failure shows to the caller\<close>









end
